theory Spec2Isabelle
  imports Main "HOL-Library.Word"
begin

section \<open>Python values used by the transcript adapters\<close>

text \<open>
  A Python \<^verbatim>\<open>str\<close> is a sequence of Unicode code points, so it is modelled as a list
  of naturals. \<open>lit\<close> turns an ASCII literal of the source into that representation.
\<close>

type_synonym str = "nat list"

definition lit :: "string \<Rightarrow> str" where
  "lit s = map of_char s"

text \<open>
  A Python \<^verbatim>\<open>float\<close> is kept as its IEEE-754 binary64 bit pattern: the adapters never
  compute with the numbers, they only pass them through and test them for truth.
\<close>

type_synonym float64 = "64 word"

datatype pyval =
    PNone
  | PBool bool
  | PInt int
  | PFloat float64
  | PStr str
  | PList "pyval list"
  | PDict "(str \<times> pyval) list"

text \<open>Truth value testing (\<^verbatim>\<open>if not video_id\<close>, \<^verbatim>\<open>x or {}\<close>, \<^verbatim>\<open>200 if ... else 400\<close>).\<close>

fun truthy :: "pyval \<Rightarrow> bool" where
  "truthy PNone = False"
| "truthy (PBool b) = b"
| "truthy (PInt i) = (i \<noteq> 0)"
| "truthy (PFloat x) = (take_bit 63 x \<noteq> 0)"
| "truthy (PStr s) = (s \<noteq> [])"
| "truthy (PList xs) = (xs \<noteq> [])"
| "truthy (PDict kvs) = (kvs \<noteq> [])"

text \<open>Reading a key of a dictionary (dictionaries keep insertion order).\<close>

fun lookup :: "pyval \<Rightarrow> str \<Rightarrow> pyval option" where
  "lookup (PDict kvs) k = map_of kvs k"
| "lookup _ k = None"

subsection \<open>Exceptions\<close>

text \<open>
  An exception object, as far as the adapters look at it: \<^verbatim>\<open>type(e).__name__\<close>, the
  names of the base classes of its class (for \<^verbatim>\<open>except C\<close>), and \<^verbatim>\<open>str(e)\<close>.
\<close>

record py_exception =
  class_name :: str
  bases :: "str list"
  message :: str

definition isinstance :: "py_exception \<Rightarrow> str \<Rightarrow> bool" where
  "isinstance e cls \<longleftrightarrow> cls = class_name e \<or> cls \<in> set (bases e)"

fun type_name :: "pyval \<Rightarrow> string" where
  "type_name PNone = ''NoneType''"
| "type_name (PBool b) = ''bool''"
| "type_name (PInt i) = ''int''"
| "type_name (PFloat x) = ''float''"
| "type_name (PStr s) = ''str''"
| "type_name (PList xs) = ''list''"
| "type_name (PDict kvs) = ''dict''"

definition AttributeError :: "pyval \<Rightarrow> string \<Rightarrow> py_exception" where
  "AttributeError v attr =
     \<lparr>class_name = lit ''AttributeError'',
      bases = [lit ''Exception'', lit ''BaseException'', lit ''object''],
      message = 39 # lit (type_name v) @ 39 # lit '' object has no attribute '' @
                39 # lit attr @ [39]\<rparr>"

definition IndexError :: py_exception where
  "IndexError =
     \<lparr>class_name = lit ''IndexError'',
      bases = [lit ''LookupError'', lit ''Exception'', lit ''BaseException'', lit ''object''],
      message = lit ''list index out of range''\<rparr>"

text \<open>\<^verbatim>\<open>d.get(key)\<close>: the value, \<^verbatim>\<open>None\<close> for a missing key, AttributeError when
  \<^verbatim>\<open>d\<close> is not a dictionary.\<close>

fun py_get :: "pyval \<Rightarrow> string \<Rightarrow> py_exception + pyval" where
  "py_get (PDict kvs) key = Inr (case map_of kvs (lit key) of None \<Rightarrow> PNone | Some v \<Rightarrow> v)"
| "py_get v key = Inl (AttributeError v ''get'')"

subsection \<open>\<^verbatim>\<open>str.join\<close> and \<^verbatim>\<open>str.split\<close>\<close>

fun py_join :: "str \<Rightarrow> str list \<Rightarrow> str" where
  "py_join sep [] = []"
| "py_join sep [x] = x"
| "py_join sep (x # y # ys) = x @ sep @ py_join sep (y # ys)"

text \<open>The code points \<^verbatim>\<open>str.split()\<close> treats as whitespace (\<^verbatim>\<open>Py_UNICODE_ISSPACE\<close>).\<close>

definition isspace :: "nat \<Rightarrow> bool" where
  "isspace c \<longleftrightarrow>
     (9 \<le> c \<and> c \<le> 13) \<or> (28 \<le> c \<and> c \<le> 32) \<or> c = 133 \<or> c = 160 \<or> c = 5760 \<or>
     (8192 \<le> c \<and> c \<le> 8202) \<or> c = 8232 \<or> c = 8233 \<or> c = 8239 \<or> c = 8287 \<or> c = 12288"

text \<open>
  \<^verbatim>\<open>s.split()\<close> with no separator: skip a run of whitespace, collect the characters up to
  the next whitespace as one token, repeat until the string ends.
\<close>

function py_split :: "str \<Rightarrow> str list" where
  "py_split s =
     (case dropWhile isspace s of
        [] \<Rightarrow> []
      | c # cs \<Rightarrow>
          (c # takeWhile (\<lambda>x. \<not> isspace x) cs) # py_split (dropWhile (\<lambda>x. \<not> isspace x) cs))"
  by pat_completeness auto
termination
proof (relation "measure length")
  show "wf (measure length)" by simp
next
  fix s :: str and c cs
  assume eq: "dropWhile isspace s = c # cs"
  have "length (dropWhile (\<lambda>x. \<not> isspace x) cs) \<le> length cs"
    by (rule length_dropWhile_le)
  moreover have "length (c # cs) \<le> length s"
    using length_dropWhile_le [of isspace s] by (simp add: eq)
  ultimately show "(dropWhile (\<lambda>x. \<not> isspace x) cs, s) \<in> measure length"
    by simp
qed

declare py_split.simps [simp del]

text \<open>
  The number of whitespace-delimited tokens of a string, read off the string itself: a
  token starts at every character that is not whitespace and is either the first one or
  preceded by whitespace. \<open>prev\<close> says whether the previous position was whitespace
  (or the start of the string).
\<close>

fun token_starts :: "bool \<Rightarrow> str \<Rightarrow> nat" where
  "token_starts prev [] = 0"
| "token_starts prev (c # cs) =
     (if \<not> isspace c \<and> prev then 1 else 0) + token_starts (isspace c) cs"

definition token_count :: "str \<Rightarrow> nat" where
  "token_count s = token_starts True s"

section \<open>The fetch capability\<close>

text \<open>
  One raw caption entry as the captions library hands it over: \<^verbatim>\<open>entry.start\<close>,
  \<^verbatim>\<open>entry.duration\<close> (seconds) and \<^verbatim>\<open>entry.text\<close>.
\<close>

record entry =
  entry_start :: float64
  entry_duration :: float64
  entry_text :: str

text \<open>
  The capability stands for \<^verbatim>\<open>YouTubeTranscriptApi().fetch(video_id)\<close> and the iteration
  over what it returns: called with an identifier it yields the entries in order, or it
  raises. Whatever it does to the world outside the program (the network, the video
  platform, a stub's own bookkeeping) is the change of a state \<open>'w\<close> the adapters
  never look into.
\<close>

type_synonym 'w capability = "pyval \<Rightarrow> 'w \<Rightarrow> (py_exception + entry list) \<times> 'w"

section \<open>The serverless function (api/transcript.py)\<close>

text \<open>The dictionary appended to \<^verbatim>\<open>segments\<close> for one entry, and \<^verbatim>\<open>s["text"]\<close> on it.\<close>

definition segment_of :: "entry \<Rightarrow> pyval" where
  "segment_of entry =
     PDict [(lit ''start'', PFloat (entry_start entry)),
            (lit ''duration'', PFloat (entry_duration entry)),
            (lit ''text'', PStr (entry_text entry))]"

definition text_of :: "pyval \<Rightarrow> str" where
  "text_of s = (case lookup s (lit ''text'') of Some (PStr t) \<Rightarrow> t | _ \<Rightarrow> [])"

text \<open>
  \<^verbatim>\<open>fetch_transcript(video_id)\<close>. \<open>HAS_TRANSCRIPT_API\<close> is the module-level flag set by
  the guarded import. The result is the returned dictionary, or the exception that leaves
  the function: \<^verbatim>\<open>except Exception\<close> catches the instances of \<^verbatim>\<open>Exception\<close> only.
\<close>

definition fetch_transcript ::
  "bool \<Rightarrow> 'w capability \<Rightarrow> pyval \<Rightarrow> 'w \<Rightarrow> (py_exception + pyval) \<times> 'w" where
  "fetch_transcript HAS_TRANSCRIPT_API fetch video_id w =
     (if \<not> HAS_TRANSCRIPT_API then
        (Inr (PDict [(lit ''success'', PBool False),
                     (lit ''error'', PStr (lit ''youtube-transcript-api not installed'')),
                     (lit ''errorType'', PStr (lit ''ImportError''))]), w)
      else
        (case fetch video_id w of
           (Inr transcript, w') \<Rightarrow>
             (let segments = map segment_of transcript;
                  full_text = py_join (lit '' '') (map text_of segments);
                  word_count = length (py_split full_text)
              in (Inr (PDict [(lit ''success'', PBool True),
                              (lit ''videoId'', video_id),
                              (lit ''segments'', PList segments),
                              (lit ''fullText'', PStr full_text),
                              (lit ''wordCount'', PInt (int word_count)),
                              (lit ''language'', PStr (lit ''en'')),
                              (lit ''source'', PStr (lit ''youtube_auto''))]), w'))
         | (Inl e, w') \<Rightarrow>
             (if isinstance e (lit ''Exception'') then
                (Inr (PDict [(lit ''success'', PBool False),
                             (lit ''videoId'', video_id),
                             (lit ''error'', PStr (message e)),
                             (lit ''errorType'', PStr (class_name e))]), w')
              else (Inl e, w'))))"

text \<open>
  What the handler class reads of a request: the dictionary
  \<^verbatim>\<open>parse_qs(urlparse(self.path).query)\<close>, the Content-Length header and the bytes waiting
  on \<^verbatim>\<open>self.rfile\<close>. What it sends: the status line, the headers in order, and the
  dictionary handed to \<^verbatim>\<open>json.dumps\<close> for the body.
\<close>

record http_request =
  req_query :: "(str \<times> str list) list"
  req_content_length :: "str option"
  req_rfile :: "8 word list"

record http_response =
  resp_status :: nat
  resp_headers :: "(str \<times> str) list"
  resp_body :: pyval

text \<open>\<^verbatim>\<open>params.get("videoId", [None])[0]\<close>\<close>

definition query_video_id :: "http_request \<Rightarrow> py_exception + pyval" where
  "query_video_id request =
     (case map_of (req_query request) (lit ''videoId'') of
        None \<Rightarrow> Inr PNone
      | Some [] \<Rightarrow> Inl IndexError
      | Some (v # vs) \<Rightarrow> Inr (PStr v))"

text \<open>The last six lines of \<^verbatim>\<open>do_GET\<close> and of \<^verbatim>\<open>do_POST\<close>: run the normalization and send its result.\<close>

definition respond ::
  "bool \<Rightarrow> 'w capability \<Rightarrow> pyval \<Rightarrow> 'w \<Rightarrow> (py_exception + http_response) \<times> 'w" where
  "respond HAS_TRANSCRIPT_API fetch video_id w =
     (case fetch_transcript HAS_TRANSCRIPT_API fetch video_id w of
        (Inl e, w') \<Rightarrow> (Inl e, w')
      | (Inr result, w') \<Rightarrow>
          (case py_get result ''success'' of
             Inl e \<Rightarrow> (Inl e, w')
           | Inr success \<Rightarrow>
               (Inr \<lparr>resp_status = (if truthy success then 200 else 400),
                     resp_headers = [(lit ''Content-Type'', lit ''application/json''),
                                (lit ''Access-Control-Allow-Origin'', lit ''*'')],
                     resp_body = result\<rparr>, w')))"

definition do_GET ::
  "bool \<Rightarrow> 'w capability \<Rightarrow> http_request \<Rightarrow> 'w \<Rightarrow> (py_exception + http_response) \<times> 'w" where
  "do_GET HAS_TRANSCRIPT_API fetch request w =
     (case query_video_id request of
        Inl e \<Rightarrow> (Inl e, w)
      | Inr video_id \<Rightarrow>
          (if \<not> truthy video_id then
             (Inr \<lparr>resp_status = 400,
                   resp_headers = [(lit ''Content-Type'', lit ''application/json'')],
                   resp_body = PDict [(lit ''success'', PBool False),
                                 (lit ''error'', PStr (lit ''videoId parameter required''))]\<rparr>, w)
           else respond HAS_TRANSCRIPT_API fetch video_id w))"

text \<open>
  The library functions \<^verbatim>\<open>do_POST\<close> calls are parameters of the model: \<^verbatim>\<open>int(s)\<close> on the
  header, \<^verbatim>\<open>bytes.decode()\<close> and \<^verbatim>\<open>json.loads\<close>; each returns its value or raises.
  \<^verbatim>\<open>rfile.read(n)\<close> takes the next \<open>n\<close> bytes, everything for a negative \<open>n\<close>.
\<close>

record stdlib =
  py_int :: "str \<Rightarrow> py_exception + int"
  decode :: "8 word list \<Rightarrow> py_exception + str"
  json_loads :: "str \<Rightarrow> py_exception + pyval"

definition rfile_read :: "8 word list \<Rightarrow> int \<Rightarrow> 8 word list" where
  "rfile_read rfile n = (if n < 0 then rfile else take (nat n) rfile)"

text \<open>Lines 89 to 97 of \<^verbatim>\<open>do_POST\<close>: from the request to \<^verbatim>\<open>data.get("videoId")\<close>.\<close>

definition body_video_id :: "stdlib \<Rightarrow> http_request \<Rightarrow> py_exception + pyval" where
  "body_video_id lib request =
     (case (case req_content_length request of None \<Rightarrow> Inr 0 | Some s \<Rightarrow> py_int lib s) of
        Inl e \<Rightarrow> Inl e
      | Inr content_length \<Rightarrow>
          (case decode lib (rfile_read (req_rfile request) content_length) of
             Inl e \<Rightarrow> Inl e
           | Inr body \<Rightarrow>
               (case (if body \<noteq> [] then
                        (case json_loads lib body of
                           Inr data \<Rightarrow> Inr data
                         | Inl e \<Rightarrow>
                             if isinstance e (lit ''JSONDecodeError'') then Inr (PDict [])
                             else Inl e)
                      else Inr (PDict [])) of
                  Inl e \<Rightarrow> Inl e
                | Inr data \<Rightarrow> py_get data ''videoId'')))"

definition do_POST ::
  "stdlib \<Rightarrow> bool \<Rightarrow> 'w capability \<Rightarrow> http_request \<Rightarrow> 'w \<Rightarrow>
   (py_exception + http_response) \<times> 'w" where
  "do_POST lib HAS_TRANSCRIPT_API fetch request w =
     (case body_video_id lib request of
        Inl e \<Rightarrow> (Inl e, w)
      | Inr video_id \<Rightarrow>
          (if \<not> truthy video_id then
             (Inr \<lparr>resp_status = 400,
                   resp_headers = [(lit ''Content-Type'', lit ''application/json'')],
                   resp_body = PDict [(lit ''success'', PBool False),
                                 (lit ''error'', PStr (lit ''videoId required in request body''))]\<rparr>, w)
           else respond HAS_TRANSCRIPT_API fetch video_id w))"

section \<open>The command-line script (scripts/fetch-transcript.py)\<close>

text \<open>The script imports the library unguarded, so its \<^verbatim>\<open>fetch_transcript\<close> has no flag to test.\<close>

definition script_fetch_transcript ::
  "'w capability \<Rightarrow> pyval \<Rightarrow> 'w \<Rightarrow> (py_exception + pyval) \<times> 'w" where
  "script_fetch_transcript fetch video_id w =
     (case fetch video_id w of
        (Inr transcript, w') \<Rightarrow>
          (let segments = map segment_of transcript;
               full_text = py_join (lit '' '') (map text_of segments);
               word_count = length (py_split full_text)
           in (Inr (PDict [(lit ''success'', PBool True),
                           (lit ''videoId'', video_id),
                           (lit ''segments'', PList segments),
                           (lit ''fullText'', PStr full_text),
                           (lit ''wordCount'', PInt (int word_count)),
                           (lit ''language'', PStr (lit ''en'')),
                           (lit ''source'', PStr (lit ''youtube_auto''))]), w'))
      | (Inl e, w') \<Rightarrow>
          (if isinstance e (lit ''Exception'') then
             (Inr (PDict [(lit ''success'', PBool False),
                          (lit ''videoId'', video_id),
                          (lit ''error'', PStr (message e)),
                          (lit ''errorType'', PStr (class_name e))]), w')
           else (Inl e, w')))"

text \<open>
  The \<^verbatim>\<open>__main__\<close> block on \<^verbatim>\<open>sys.argv\<close>: what it prints (each line the dictionary handed to
  \<^verbatim>\<open>json.dumps\<close>) and the exit code of the process, or the exception nothing caught.
\<close>

record process_result =
  stdout :: "pyval list"
  exit_code :: int

definition script_main ::
  "'w capability \<Rightarrow> str list \<Rightarrow> 'w \<Rightarrow> (py_exception + process_result) \<times> 'w" where
  "script_main fetch argv w =
     (if length argv < 2 then
        (Inr \<lparr>stdout = [PDict [(lit ''success'', PBool False),
                                (lit ''error'', PStr (lit ''Video ID required''))]],
              exit_code = 1\<rparr>, w)
      else
        (case script_fetch_transcript fetch (PStr (argv ! 1)) w of
           (Inl e, w') \<Rightarrow> (Inl e, w')
         | (Inr result, w') \<Rightarrow> (Inr \<lparr>stdout = [result], exit_code = 0\<rparr>, w')))"

section \<open>The web service (transcript-service/app.py)\<close>

text \<open>
  What the view reads of Flask's \<^verbatim>\<open>request\<close>: the method, \<^verbatim>\<open>request.args\<close> (a multi-dict,
  whose \<^verbatim>\<open>get\<close> returns the first value of a key) and the outcome of
  \<^verbatim>\<open>request.get_json()\<close>. What it returns: the dictionary handed to \<^verbatim>\<open>jsonify\<close> and the
  status code (200 when the view gives none).
\<close>

record flask_request =
  http_method :: str
  args :: "(str \<times> str) list"
  get_json :: "py_exception + pyval"

record flask_response =
  json :: pyval
  status_code :: nat

definition health :: flask_response where
  "health =
     \<lparr>json = PDict [(lit ''status'', PStr (lit ''ok'')),
                    (lit ''service'', PStr (lit ''transcript-service''))],
      status_code = 200\<rparr>"

text \<open>Lines 21 to 25 of \<^verbatim>\<open>get_transcript\<close>.\<close>

definition request_video_id :: "flask_request \<Rightarrow> py_exception + pyval" where
  "request_video_id request =
     (if http_method request = lit ''POST'' then
        (case get_json request of
           Inl e \<Rightarrow> Inl e
         | Inr j \<Rightarrow> py_get (if truthy j then j else PDict []) ''videoId'')
      else
        Inr (case map_of (args request) (lit ''videoId'') of
               None \<Rightarrow> PNone
             | Some v \<Rightarrow> PStr v))"

definition get_transcript ::
  "'w capability \<Rightarrow> flask_request \<Rightarrow> 'w \<Rightarrow> (py_exception + flask_response) \<times> 'w" where
  "get_transcript fetch request w =
     (case request_video_id request of
        Inl e \<Rightarrow> (Inl e, w)
      | Inr video_id \<Rightarrow>
          (if \<not> truthy video_id then
             (Inr \<lparr>json = PDict [(lit ''success'', PBool False),
                                 (lit ''error'', PStr (lit ''videoId parameter required''))],
                   status_code = 400\<rparr>, w)
           else
             (case fetch video_id w of
                (Inr transcript, w') \<Rightarrow>
                  (let segments = map segment_of transcript;
                       full_text = py_join (lit '' '') (map text_of segments);
                       word_count = length (py_split full_text)
                   in (Inr \<lparr>json = PDict [(lit ''success'', PBool True),
                                          (lit ''videoId'', video_id),
                                          (lit ''segments'', PList segments),
                                          (lit ''fullText'', PStr full_text),
                                          (lit ''wordCount'', PInt (int word_count)),
                                          (lit ''language'', PStr (lit ''en'')),
                                          (lit ''source'', PStr (lit ''youtube_auto''))],
                            status_code = 200\<rparr>, w'))
              | (Inl e, w') \<Rightarrow>
                  (if isinstance e (lit ''Exception'') then
                     (Inr \<lparr>json = PDict [(lit ''success'', PBool False),
                                         (lit ''videoId'', video_id),
                                         (lit ''error'', PStr (message e)),
                                         (lit ''errorType'', PStr (class_name e))],
                           status_code = 400\<rparr>, w')
                   else (Inl e, w')))))"

section \<open>Reading results, and stub capabilities\<close>

text \<open>The value a returned dictionary holds under a key (nothing when an exception left instead).\<close>

definition field :: "(py_exception + pyval) \<times> 'w \<Rightarrow> string \<Rightarrow> pyval option" where
  "field r key = (case fst r of Inl e \<Rightarrow> None | Inr d \<Rightarrow> lookup d (lit key))"

text \<open>
  A capability instrumented to count its invocations: it behaves like \<open>fetch\<close> on the
  world and adds one to the counter each time it is called.
\<close>

definition counting :: "'w capability \<Rightarrow> (nat \<times> 'w) capability" where
  "counting fetch video_id =
     (\<lambda>(n, w). case fetch video_id w of (r, w') \<Rightarrow> (r, (Suc n, w')))"

text \<open>Stub capabilities: one that returns the given entries, one that raises the given exception.\<close>

definition stub_returning :: "entry list \<Rightarrow> 'w capability" where
  "stub_returning entries = (\<lambda>video_id w. (Inr entries, w))"

definition stub_raising :: "py_exception \<Rightarrow> 'w capability" where
  "stub_raising e = (\<lambda>video_id w. (Inl e, w))"

text \<open>The two entries of the end-to-end scenario: 0.0, 2.5, "Hello" and 2.5, 1.0, "world".\<close>

definition hello_world :: "entry list" where
  "hello_world =
     [\<lparr>entry_start = 0, entry_duration = 0x4004000000000000, entry_text = lit ''Hello''\<rparr>,
      \<lparr>entry_start = 0x4004000000000000, entry_duration = 0x3FF0000000000000,
       entry_text = lit ''world''\<rparr>]"


text \<open>
  What a caller receives once a returned dictionary went through \<^verbatim>\<open>json.dumps\<close>: the bytes
  of the serialized dictionary, for any serializer \<open>dumps\<close>.
\<close>

definition output_bytes ::
  "(pyval \<Rightarrow> 8 word list) \<Rightarrow> (py_exception + pyval) \<times> 'w \<Rightarrow> 8 word list option" where
  "output_bytes dumps r = (case fst r of Inl e \<Rightarrow> None | Inr d \<Rightarrow> Some (dumps d))"

text \<open>A GET request to the web service with the query string \<^verbatim>\<open>videoId=abc123\<close>.\<close>

definition get_abc123 :: flask_request where
  "get_abc123 =
     \<lparr>http_method = lit ''GET'', args = [(lit ''videoId'', lit ''abc123'')],
      get_json = Inr PNone\<rparr>"

section \<open>Replies, and a stub library\<close>


text \<open>
  The two responses the handler class sends: the one for a missing identifier, with the
  message of the method, and the one that carries a result of \<^verbatim>\<open>fetch_transcript\<close>.
\<close>

definition missing_reply :: "string \<Rightarrow> http_response" where
  "missing_reply msg =
     \<lparr>resp_status = 400,
      resp_headers = [(lit ''Content-Type'', lit ''application/json'')],
      resp_body = PDict [(lit ''success'', PBool False), (lit ''error'', PStr (lit msg))]\<rparr>"

definition result_reply :: "pyval \<Rightarrow> http_response" where
  "result_reply result =
     \<lparr>resp_status = (if lookup result (lit ''success'') = Some (PBool True) then 200 else 400),
      resp_headers = [(lit ''Content-Type'', lit ''application/json''),
                      (lit ''Access-Control-Allow-Origin'', lit ''*'')],
      resp_body = result\<rparr>"

text \<open>
  Exceptions of the Python library as the adapters can meet them: what \<^verbatim>\<open>bytes.decode\<close>
  raises on the single byte 0xFF, what \<^verbatim>\<open>json.loads\<close> raises on text with no JSON value at
  its start, what \<^verbatim>\<open>int\<close> raises on a string that is no number, and the interrupt of
  the user, a class outside \<^verbatim>\<open>Exception\<close>.
\<close>

definition UnicodeDecodeError_0xff :: py_exception where
  "UnicodeDecodeError_0xff =
     \<lparr>class_name = lit ''UnicodeDecodeError'',
      bases = [lit ''UnicodeError'', lit ''ValueError'', lit ''Exception'',
               lit ''BaseException'', lit ''object''],
      message = 39 # lit ''utf-8'' @ 39 #
                lit '' codec can't decode byte 0xff in position 0: invalid start byte''\<rparr>"

definition JSONDecodeError_at_0 :: py_exception where
  "JSONDecodeError_at_0 =
     \<lparr>class_name = lit ''JSONDecodeError'',
      bases = [lit ''ValueError'', lit ''Exception'', lit ''BaseException'', lit ''object''],
      message = lit ''Expecting value: line 1 column 1 (char 0)''\<rparr>"

definition ValueError_int :: "str \<Rightarrow> py_exception" where
  "ValueError_int s =
     \<lparr>class_name = lit ''ValueError'',
      bases = [lit ''Exception'', lit ''BaseException'', lit ''object''],
      message = lit ''invalid literal for int() with base 10: '' @ 39 # s @ [39]\<rparr>"

definition KeyboardInterrupt :: py_exception where
  "KeyboardInterrupt =
     \<lparr>class_name = lit ''KeyboardInterrupt'',
      bases = [lit ''BaseException'', lit ''object''],
      message = []\<rparr>"

text \<open>
  A stand-in for the library functions of \<^verbatim>\<open>do_POST\<close>, as they behave on the requests
  below: \<open>int\<close> reads plain decimal digits, \<open>decode\<close> takes ASCII bytes to their
  characters and refuses the byte 0xFF, \<open>json.loads\<close> is given text that is not JSON.
\<close>

definition stub_lib :: stdlib where
  "stub_lib =
     \<lparr>py_int = (\<lambda>s. if s \<noteq> [] \<and> list_all (\<lambda>c. 48 \<le> c \<and> c \<le> 57) s
                      then Inr (foldl (\<lambda>n c. 10 * n + (int c - 48)) 0 s)
                      else Inl (ValueError_int s)),
      decode = (\<lambda>bs. if bs = [0xFF] then Inl UnicodeDecodeError_0xff else Inr (map unat bs)),
      json_loads = (\<lambda>s. Inl JSONDecodeError_at_0)\<rparr>"

text \<open>
  Requests: a POST whose body is the one byte 0xFF, a POST whose body is the text
  \<^verbatim>\<open>not json\<close>, and a GET to the web service without a query string.
\<close>

definition post_0xff :: http_request where
  "post_0xff = \<lparr>req_query = [], req_content_length = Some (lit ''1''), req_rfile = [0xFF]\<rparr>"

definition post_not_json :: http_request where
  "post_not_json =
     \<lparr>req_query = [], req_content_length = Some (lit ''8''),
      req_rfile = map of_char ''not json''\<rparr>"

definition get_no_video_id :: flask_request where
  "get_no_video_id = \<lparr>http_method = lit ''GET'', args = [], get_json = Inr PNone\<rparr>"

section \<open>Lemmas on splitting and joining\<close>

lemma py_split_Nil [simp]: "py_split [] = []"
  by (simp add: py_split.simps)

lemma py_split_space [simp]: "isspace c \<Longrightarrow> py_split (c # cs) = py_split cs"
  by (simp add: py_split.simps [of "c # cs"] py_split.simps [of cs])

lemma py_split_token [simp]:
  "\<not> isspace c \<Longrightarrow>
   py_split (c # cs) =
     (c # takeWhile (\<lambda>x. \<not> isspace x) cs) # py_split (dropWhile (\<lambda>x. \<not> isspace x) cs)"
  by (simp add: py_split.simps [of "c # cs"])

lemma token_starts_skip_spaces:
  "token_starts True s = token_starts True (dropWhile isspace s)"
  by (induction s) simp_all

lemma token_starts_skip_token:
  "token_starts False s = token_starts True (dropWhile (\<lambda>x. \<not> isspace x) s)"
  by (induction s) simp_all

lemma length_py_split: "length (py_split s) = token_count s"
  unfolding token_count_def
proof (induction s rule: py_split.induct)
  case (1 s)
  show ?case
  proof (cases "dropWhile isspace s")
    case Nil
    have "py_split s = []"
      by (simp add: py_split.simps [of s] Nil)
    moreover have "token_starts True s = 0"
      by (simp add: token_starts_skip_spaces [of s] Nil)
    ultimately show ?thesis by simp
  next
    case (Cons c cs)
    then have nsp: "\<not> isspace c"
      using hd_dropWhile [of isspace s] by force
    have "py_split s =
        (c # takeWhile (\<lambda>x. \<not> isspace x) cs) # py_split (dropWhile (\<lambda>x. \<not> isspace x) cs)"
      by (simp add: py_split.simps [of s] Cons)
    moreover have "token_starts True s = Suc (token_starts False cs)"
      by (simp add: token_starts_skip_spaces [of s] Cons nsp)
    moreover have "token_starts False cs =
        token_starts True (dropWhile (\<lambda>x. \<not> isspace x) cs)"
      by (rule token_starts_skip_token)
    ultimately show ?thesis
      using "1.IH" [OF Cons] by simp
  qed
qed

lemma py_split_tokens:
  "t \<in> set (py_split s) \<Longrightarrow> t \<noteq> [] \<and> \<not> list_ex isspace t"
proof (induction s rule: py_split.induct)
  case (1 s)
  show ?case
  proof (cases "dropWhile isspace s")
    case Nil
    have "py_split s = []"
      by (simp add: py_split.simps [of s] Nil)
    with "1.prems" show ?thesis by simp
  next
    case (Cons c cs)
    then have nsp: "\<not> isspace c"
      using hd_dropWhile [of isspace s] by force
    have "py_split s =
        (c # takeWhile (\<lambda>x. \<not> isspace x) cs) # py_split (dropWhile (\<lambda>x. \<not> isspace x) cs)"
      by (simp add: py_split.simps [of s] Cons)
    with "1.prems"
    consider "t = c # takeWhile (\<lambda>x. \<not> isspace x) cs"
      | "t \<in> set (py_split (dropWhile (\<lambda>x. \<not> isspace x) cs))"
      by auto
    then show ?thesis
    proof cases
      case 1
      then show ?thesis
        using nsp by (auto simp add: list_ex_iff dest: set_takeWhileD)
    next
      case 2
      then show ?thesis by (rule "1.IH" [OF Cons])
    qed
  qed
qed

lemma concat_py_split: "concat (py_split s) = filter (\<lambda>x. \<not> isspace x) s"
proof (induction s rule: py_split.induct)
  case (1 s)
  have split_filter: "filter (\<lambda>x. \<not> isspace x) s = filter (\<lambda>x. \<not> isspace x) (dropWhile isspace s)"
    by (induction s) simp_all
  show ?case
  proof (cases "dropWhile isspace s")
    case Nil
    show ?thesis
      by (simp add: py_split.simps [of s] split_filter Nil)
  next
    case (Cons c cs)
    then have nsp: "\<not> isspace c"
      using hd_dropWhile [of isspace s] by force
    have tw: "filter (\<lambda>x. \<not> isspace x) cs =
        takeWhile (\<lambda>x. \<not> isspace x) cs @
        filter (\<lambda>x. \<not> isspace x) (dropWhile (\<lambda>x. \<not> isspace x) cs)"
      by (induction cs) simp_all
    show ?thesis
      by (simp add: py_split.simps [of s] split_filter Cons "1.IH" [OF Cons] nsp tw)
  qed
qed

lemma py_join_concat:
  "py_join sep ts = (case ts of [] \<Rightarrow> [] | t # us \<Rightarrow> t @ concat (map (\<lambda>u. sep @ u) us))"
  by (induction sep ts rule: py_join.induct) simp_all

lemma py_join_single_space:
  "py_join (lit '' '') ts = (case ts of [] \<Rightarrow> [] | t # us \<Rightarrow> t @ concat (map (\<lambda>u. 32 # u) us))"
proof -
  have sp: "lit '' '' = [32]" by (simp add: lit_def)
  have cons: "(@) [32::nat] = (#) 32" by (rule ext) simp
  show ?thesis by (cases ts) (simp_all add: sp cons py_join_concat [of "[32]"])
qed

section \<open>Lemmas on the normalization\<close>

lemma lit_eq_iff [simp]: "lit a = lit b \<longleftrightarrow> a = b"
  unfolding lit_def using inj_of_char [where ?'a = nat] by (simp add: inj_map_eq_map)

lemma text_of_segment_of [simp]: "text_of (segment_of entry) = entry_text entry"
  by (simp add: text_of_def segment_of_def)

lemma text_of_comp_segment_of [simp]: "text_of \<circ> segment_of = entry_text"
  by (rule ext) simp

lemma fetch_transcript_returns:
  assumes "fetch video_id w = (Inr transcript, w')"
  shows "fetch_transcript True fetch video_id w =
     (Inr (PDict [(lit ''success'', PBool True),
                  (lit ''videoId'', video_id),
                  (lit ''segments'', PList (map segment_of transcript)),
                  (lit ''fullText'', PStr (py_join (lit '' '') (map entry_text transcript))),
                  (lit ''wordCount'',
                     PInt (int (token_count (py_join (lit '' '') (map entry_text transcript))))),
                  (lit ''language'', PStr (lit ''en'')),
                  (lit ''source'', PStr (lit ''youtube_auto''))]), w')"
  using assms by (simp add: fetch_transcript_def length_py_split Let_def)

lemma fetch_transcript_raises:
  assumes "fetch video_id w = (Inl e, w')"
  shows "fetch_transcript True fetch video_id w =
     (if isinstance e (lit ''Exception'') then
        (Inr (PDict [(lit ''success'', PBool False),
                     (lit ''videoId'', video_id),
                     (lit ''error'', PStr (message e)),
                     (lit ''errorType'', PStr (class_name e))]), w')
      else (Inl e, w'))"
  using assms by (simp add: fetch_transcript_def)

lemma fetch_transcript_unavailable:
  "fetch_transcript False fetch video_id w =
     (Inr (PDict [(lit ''success'', PBool False),
                  (lit ''error'', PStr (lit ''youtube-transcript-api not installed'')),
                  (lit ''errorType'', PStr (lit ''ImportError''))]), w)"
  by (simp add: fetch_transcript_def)

lemma get_transcript_raises:
  assumes "request_video_id request = Inr video_id" and "truthy video_id"
    and "fetch video_id w = (Inl e, w')"
  shows "get_transcript fetch request w =
     (if isinstance e (lit ''Exception'') then
        (Inr \<lparr>json = PDict [(lit ''success'', PBool False),
                            (lit ''videoId'', video_id),
                            (lit ''error'', PStr (message e)),
                            (lit ''errorType'', PStr (class_name e))],
              status_code = 400\<rparr>, w')
      else (Inl e, w'))"
  using assms by (simp add: get_transcript_def)

lemma get_transcript_returns:
  assumes "request_video_id request = Inr video_id" and "truthy video_id"
    and "fetch video_id w = (Inr transcript, w')"
  shows "get_transcript fetch request w =
     (Inr \<lparr>json = PDict [(lit ''success'', PBool True),
                  (lit ''videoId'', video_id),
                  (lit ''segments'', PList (map segment_of transcript)),
                  (lit ''fullText'', PStr (py_join (lit '' '') (map entry_text transcript))),
                  (lit ''wordCount'',
                     PInt (int (token_count (py_join (lit '' '') (map entry_text transcript))))),
                  (lit ''language'', PStr (lit ''en'')),
                  (lit ''source'', PStr (lit ''youtube_auto''))],
           status_code = 200\<rparr>, w')"
  using assms by (simp add: get_transcript_def length_py_split Let_def)

lemma get_transcript_missing:
  assumes "request_video_id request = Inr video_id" and "\<not> truthy video_id"
  shows "get_transcript fetch request w =
     (Inr \<lparr>json = PDict [(lit ''success'', PBool False),
                         (lit ''error'', PStr (lit ''videoId parameter required''))],
           status_code = 400\<rparr>, w)"
  using assms by (simp add: get_transcript_def)

lemma fetch_transcript_propagates:
  assumes "fetch video_id w = (Inl e, w')" and "\<not> isinstance e (lit ''Exception'')"
  shows "fetch_transcript True fetch video_id w = (Inl e, w')"
  using assms by (simp add: fetch_transcript_raises)

lemma script_fetch_transcript_eq:
  "script_fetch_transcript fetch video_id w = fetch_transcript True fetch video_id w"
  by (simp add: script_fetch_transcript_def fetch_transcript_def)

lemma counting_simp [simp]:
  "counting fetch video_id (n, w) = (fst (fetch video_id w), (Suc n, snd (fetch video_id w)))"
  by (simp add: counting_def split: prod.splits)

lemma fetch_transcript_counts_one_call:
  "snd (fetch_transcript True (counting fetch) video_id (n, w)) =
     (Suc n, snd (fetch video_id w))"
  by (simp add: fetch_transcript_def Let_def split: sum.splits prod.splits)

lemma fetch_transcript_cases:
  obtains (unavailable) "\<not> has_api"
  | (returns) transcript w' where "has_api" "fetch video_id w = (Inr transcript, w')"
  | (raises) e w' where "has_api" "fetch video_id w = (Inl e, w')"
  by (cases has_api; cases "fetch video_id w"; cases "fst (fetch video_id w)") auto

lemma fetch_transcript_result_cong:
  assumes "fst (fetch video_id w1) = fst (fetch' video_id w2)"
  shows "fst (fetch_transcript has_api fetch video_id w1) =
         fst (fetch_transcript has_api fetch' video_id w2)"
  using assms
  by (cases "fetch video_id w1"; cases "fetch' video_id w2")
     (simp add: fetch_transcript_def Let_def split: sum.splits)

section \<open>Lemmas on the adapters\<close>

lemma fetch_transcript_success_field:
  assumes "fetch_transcript has_api fetch video_id w = (Inr result, w')"
  shows "lookup result (lit ''success'') = Some (PBool True) \<or>
         lookup result (lit ''success'') = Some (PBool False)"
proof (cases rule: fetch_transcript_cases
    [where has_api = has_api and fetch = fetch and video_id = video_id and w = w])
  case unavailable
  then show ?thesis using assms by (auto simp add: fetch_transcript_unavailable)
next
  case (returns transcript w'')
  then show ?thesis using assms by (auto simp add: fetch_transcript_returns)
next
  case (raises e w'')
  then show ?thesis using assms by (auto simp add: fetch_transcript_raises split: if_splits)
qed

lemma respond_eq:
  "respond has_api fetch video_id w =
     (case fetch_transcript has_api fetch video_id w of
        (Inl e, w') \<Rightarrow> (Inl e, w')
      | (Inr result, w') \<Rightarrow> (Inr (result_reply result), w'))"
proof (cases "fetch_transcript has_api fetch video_id w")
  case (Pair r w')
  show ?thesis
  proof (cases r)
    case (Inl e)
    with Pair show ?thesis by (simp add: respond_def)
  next
    case (Inr result)
    with Pair have "fetch_transcript has_api fetch video_id w = (Inr result, w')" by simp
    from fetch_transcript_success_field [OF this] Pair Inr show ?thesis
      by (cases result) (auto simp add: respond_def result_reply_def split: option.splits)
  qed
qed

lemma get_transcript_normalizes:
  assumes "request_video_id request = Inr video_id" and "truthy video_id"
  shows "get_transcript fetch request w =
     (case fetch_transcript True fetch video_id w of
        (Inl e, w') \<Rightarrow> (Inl e, w')
      | (Inr result, w') \<Rightarrow>
          (Inr \<lparr>json = result,
                status_code =
                  (if lookup result (lit ''success'') = Some (PBool True) then 200 else 400)\<rparr>,
           w'))"
proof (cases rule: fetch_transcript_cases
    [where has_api = True and fetch = fetch and video_id = video_id and w = w])
  case unavailable
  then show ?thesis by simp
next
  case (returns transcript w')
  then show ?thesis
    using assms by (simp add: fetch_transcript_returns get_transcript_returns)
next
  case (raises e w')
  then show ?thesis
    using assms by (simp add: fetch_transcript_raises get_transcript_raises)
qed


lemma do_GET_eq:
  "do_GET has_api fetch request w =
     (case query_video_id request of
        Inl e \<Rightarrow> (Inl e, w)
      | Inr video_id \<Rightarrow>
          if \<not> truthy video_id then (Inr (missing_reply ''videoId parameter required''), w)
          else (case fetch_transcript has_api fetch video_id w of
                  (Inl e, w') \<Rightarrow> (Inl e, w')
                | (Inr result, w') \<Rightarrow> (Inr (result_reply result), w')))"
  by (simp add: do_GET_def respond_eq missing_reply_def split: sum.splits)

lemma do_POST_eq:
  "do_POST lib has_api fetch request w =
     (case body_video_id lib request of
        Inl e \<Rightarrow> (Inl e, w)
      | Inr video_id \<Rightarrow>
          if \<not> truthy video_id then (Inr (missing_reply ''videoId required in request body''), w)
          else (case fetch_transcript has_api fetch video_id w of
                  (Inl e, w') \<Rightarrow> (Inl e, w')
                | (Inr result, w') \<Rightarrow> (Inr (result_reply result), w')))"
  by (simp add: do_POST_def respond_eq missing_reply_def split: sum.splits)





lemma script_main_eq:
  "2 \<le> length argv \<Longrightarrow>
   script_main fetch argv w =
     (case fetch_transcript True fetch (PStr (argv ! 1)) w of
        (Inl e, w') \<Rightarrow> (Inl e, w')
      | (Inr result, w') \<Rightarrow> (Inr \<lparr>stdout = [result], exit_code = 0\<rparr>, w'))"
  by (simp add: script_main_def script_fetch_transcript_eq)

lemma do_POST_unparsable_body:
  assumes "(case req_content_length request of None \<Rightarrow> Inr 0 | Some s \<Rightarrow> py_int lib s) = Inr n"
    and "decode lib (rfile_read (req_rfile request) n) = Inr body"
    and "body = [] \<or> (\<exists>e. json_loads lib body = Inl e \<and> isinstance e (lit ''JSONDecodeError''))"
  shows "do_POST lib has_api fetch request w =
           (Inr (missing_reply ''videoId required in request body''), w)"
proof -
  have "body_video_id lib request = Inr PNone"
    using assms by (auto simp add: body_video_id_def)
  then show ?thesis
    by (simp add: do_POST_eq)
qed

lemma do_POST_not_json_example:
  "do_POST stub_lib True (stub_returning hello_world) post_not_json () =
     (Inr (missing_reply ''videoId required in request body''), ())"
proof -
  have h1: "(case req_content_length post_not_json of None \<Rightarrow> Inr 0
             | Some s \<Rightarrow> py_int stub_lib s) = Inr 8"
    by (simp add: post_not_json_def stub_lib_def lit_def)
  have h2: "decode stub_lib (rfile_read (req_rfile post_not_json) 8) = Inr (lit ''not json'')"
    by (simp add: post_not_json_def stub_lib_def rfile_read_def lit_def)
  have h3: "lit ''not json'' = [] \<or>
     (\<exists>e. json_loads stub_lib (lit ''not json'') = Inl e \<and> isinstance e (lit ''JSONDecodeError''))"
    by (simp add: stub_lib_def isinstance_def JSONDecodeError_at_0_def)
  show ?thesis
    using h1 h2 h3 by (rule do_POST_unparsable_body)
qed

lemma keyboard_interrupt_propagates:
  "fetch_transcript True (stub_raising KeyboardInterrupt) video_id w = (Inl KeyboardInterrupt, w)"
proof -
  have "\<not> isinstance KeyboardInterrupt (lit ''Exception'')"
    by (simp add: isinstance_def KeyboardInterrupt_def)
  moreover have "stub_raising KeyboardInterrupt video_id w = (Inl KeyboardInterrupt, w)"
    by (simp add: stub_raising_def)
  ultimately show ?thesis
    by (simp add: fetch_transcript_raises)
qed

lemma get_transcript_success_fields:
  assumes "get_transcript fetch request w = (Inr resp, w')"
    and "lookup (json resp) (lit ''success'') = Some (PBool True)"
  shows "lookup (json resp) (lit ''language'') = Some (PStr (lit ''en'')) \<and>
         lookup (json resp) (lit ''source'') = Some (PStr (lit ''youtube_auto''))"
proof (cases "request_video_id request")
  case (Inl e)
  with assms show ?thesis by (simp add: get_transcript_def)
next
  case (Inr video_id)
  show ?thesis
  proof (cases "truthy video_id")
    case False
    with assms Inr show ?thesis by (auto simp add: get_transcript_missing)
  next
    case True
    show ?thesis
    proof (cases rule: fetch_transcript_cases
        [where has_api = True and fetch = fetch and video_id = video_id and w = w])
      case unavailable
      then show ?thesis by simp
    next
      case (returns transcript w'')
      with assms Inr True show ?thesis by (auto simp add: get_transcript_returns)
    next
      case (raises e w'')
      with assms Inr True show ?thesis
        by (auto simp add: get_transcript_raises split: if_splits)
    qed
  qed
qed

section \<open>The normalization contract\<close>

text \<open>
  C1. Whenever the library is loaded and the capability returns a sequence of entries (of
  any length, for any identifier), \<^verbatim>\<open>fetch_transcript\<close> returns a dictionary with
  \<^verbatim>\<open>success\<close> true and the identifier it was given; its \<^verbatim>\<open>segments\<close> are the entries in
  the same order, as many as there were, each with \<^verbatim>\<open>start\<close>, \<^verbatim>\<open>duration\<close> and \<^verbatim>\<open>text\<close>
  unchanged; \<^verbatim>\<open>fullText\<close> is the texts joined: the first text, and before every later
  text one ASCII space (code point 32); \<^verbatim>\<open>wordCount\<close> is the number of
  whitespace-delimited tokens of \<^verbatim>\<open>fullText\<close>. For no entries, \<^verbatim>\<open>fullText\<close> is the empty
  string and \<^verbatim>\<open>wordCount\<close> is 0.
\<close>

theorem fetch_transcript_success_record:
  assumes "fetch video_id w = (Inr transcript, w')"
  defines "r \<equiv> fetch_transcript True fetch video_id w"
  defines "full_text \<equiv> py_join (lit '' '') (map entry_text transcript)"
  shows "snd r = w' \<and>
     field r ''success'' = Some (PBool True) \<and>
     field r ''videoId'' = Some video_id \<and>
     field r ''segments'' = Some (PList (map segment_of transcript)) \<and>
     length (map segment_of transcript) = length transcript \<and>
     (\<forall>i < length transcript.
        map segment_of transcript ! i =
          PDict [(lit ''start'', PFloat (entry_start (transcript ! i))),
                 (lit ''duration'', PFloat (entry_duration (transcript ! i))),
                 (lit ''text'', PStr (entry_text (transcript ! i)))]) \<and>
     field r ''fullText'' = Some (PStr full_text) \<and>
     full_text =
       (case transcript of [] \<Rightarrow> []
        | e # es \<Rightarrow> entry_text e @ concat (map (\<lambda>u. 32 # entry_text u) es)) \<and>
     field r ''wordCount'' = Some (PInt (int (token_count full_text))) \<and>
     (transcript = [] \<longrightarrow>
        field r ''fullText'' = Some (PStr []) \<and> field r ''wordCount'' = Some (PInt 0))"
proof -
  have eq: "r =
     (Inr (PDict [(lit ''success'', PBool True),
                  (lit ''videoId'', video_id),
                  (lit ''segments'', PList (map segment_of transcript)),
                  (lit ''fullText'', PStr full_text),
                  (lit ''wordCount'', PInt (int (token_count full_text))),
                  (lit ''language'', PStr (lit ''en'')),
                  (lit ''source'', PStr (lit ''youtube_auto''))]), w')"
    unfolding r_def full_text_def using assms(1) by (rule fetch_transcript_returns)
  have segs: "\<forall>i < length transcript.
        map segment_of transcript ! i =
          PDict [(lit ''start'', PFloat (entry_start (transcript ! i))),
                 (lit ''duration'', PFloat (entry_duration (transcript ! i))),
                 (lit ''text'', PStr (entry_text (transcript ! i)))]"
    by (simp add: segment_of_def)
  have joined: "full_text =
       (case transcript of [] \<Rightarrow> []
        | e # es \<Rightarrow> entry_text e @ concat (map (\<lambda>u. 32 # entry_text u) es))"
    by (simp add: full_text_def py_join_single_space comp_def split: list.splits)
  have empty: "transcript = [] \<longrightarrow>
        field r ''fullText'' = Some (PStr []) \<and> field r ''wordCount'' = Some (PInt 0)"
    by (simp add: eq field_def full_text_def token_count_def)
  show ?thesis
    using segs joined empty by (simp add: eq field_def)
qed

text \<open>
  The end-to-end scenario: the identifier "abc123" and a stub returning the entries
  (0.0, 2.5, "Hello") and (2.5, 1.0, "world") give \<^verbatim>\<open>fullText\<close> "Hello world",
  \<^verbatim>\<open>wordCount\<close> 2 and the two segments.
\<close>

theorem fetch_transcript_success_record_witness:
  "stub_returning hello_world (PStr (lit ''abc123'')) () = (Inr hello_world, ()) \<and>
   field (fetch_transcript True (stub_returning hello_world) (PStr (lit ''abc123'')) ()) ''success''
     = Some (PBool True) \<and>
   field (fetch_transcript True (stub_returning hello_world) (PStr (lit ''abc123'')) ()) ''fullText''
     = Some (PStr (lit ''Hello world'')) \<and>
   field (fetch_transcript True (stub_returning hello_world) (PStr (lit ''abc123'')) ()) ''wordCount''
     = Some (PInt 2) \<and>
   field (fetch_transcript True (stub_returning hello_world) (PStr (lit ''abc123'')) ()) ''segments''
     = Some (PList
         [PDict [(lit ''start'', PFloat 0), (lit ''duration'', PFloat 0x4004000000000000),
                 (lit ''text'', PStr (lit ''Hello''))],
          PDict [(lit ''start'', PFloat 0x4004000000000000),
                 (lit ''duration'', PFloat 0x3FF0000000000000),
                 (lit ''text'', PStr (lit ''world''))]])"
proof -
  have h: "stub_returning hello_world (PStr (lit ''abc123'')) () = (Inr hello_world, ())"
    by (simp add: stub_returning_def)
  have hw: "py_join (lit '' '') (map entry_text hello_world) = lit ''Hello world''"
    by (simp add: hello_world_def lit_def)
  have tc: "token_count (lit ''Hello world'') = 2"
    by (simp add: token_count_def lit_def isspace_def)
  show ?thesis
    using fetch_transcript_success_record
            [where fetch = "stub_returning hello_world" and video_id = "PStr (lit ''abc123'')"
               and w = "()" and transcript = hello_world and w' = "()"] h
    by (simp add: hw tc) (simp add: hello_world_def segment_of_def)
qed



text \<open>
  C3. When the library failed to load (\<^verbatim>\<open>HAS_TRANSCRIPT_API\<close> is false), \<^verbatim>\<open>fetch_transcript\<close>
  returns, for every identifier, the dictionary with \<^verbatim>\<open>success\<close> false, \<^verbatim>\<open>errorType\<close>
  "ImportError" and the fixed message "youtube-transcript-api not installed". The
  capability is not invoked: the world is left as it was whatever the capability would do,
  and a capability that counts its invocations keeps its count.
\<close>

theorem unavailable_capability_is_import_error:
  "fetch_transcript False fetch video_id w =
     (Inr (PDict [(lit ''success'', PBool False),
                  (lit ''error'', PStr (lit ''youtube-transcript-api not installed'')),
                  (lit ''errorType'', PStr (lit ''ImportError''))]), w) \<and>
   field (fetch_transcript False fetch video_id w) ''success'' = Some (PBool False) \<and>
   field (fetch_transcript False fetch video_id w) ''errorType'' = Some (PStr (lit ''ImportError'')) \<and>
   field (fetch_transcript False fetch video_id w) ''error'' =
     Some (PStr (lit ''youtube-transcript-api not installed'')) \<and>
   snd (fetch_transcript False (counting fetch) video_id (n, w)) = (n, w)"
  by (simp add: fetch_transcript_unavailable field_def)

theorem unavailable_capability_is_import_error_witness:
  "field (fetch_transcript False (stub_returning hello_world) (PStr (lit ''abc123'')) ()) ''errorType''
     = Some (PStr (lit ''ImportError'')) \<and>
   snd (fetch_transcript False (counting (stub_returning hello_world)) (PStr (lit ''abc123'')) (0, ()))
     = (0, ()) \<and>
   snd (fetch_transcript True (counting (stub_returning hello_world)) (PStr (lit ''abc123'')) (0, ()))
     = (1, ())"
  using unavailable_capability_is_import_error
          [of "stub_returning hello_world" "PStr (lit ''abc123'')" "()" 0]
  by (simp add: fetch_transcript_counts_one_call field_def stub_returning_def)

text \<open>
  C4. Every dictionary \<^verbatim>\<open>fetch_transcript\<close> returns with \<^verbatim>\<open>success\<close> true has \<^verbatim>\<open>language\<close>
  "en" and \<^verbatim>\<open>source\<close> "youtube_auto", whatever the identifier and the entries; so has
  every such dictionary of the script and of the web service; and \<^verbatim>\<open>fetch_transcript\<close>
  returns such a dictionary whenever the capability returns entries.
\<close>

theorem success_has_fixed_language_and_source:
  "(field (fetch_transcript has_api fetch video_id w) ''success'' = Some (PBool True) \<longrightarrow>
      field (fetch_transcript has_api fetch video_id w) ''language'' = Some (PStr (lit ''en'')) \<and>
      field (fetch_transcript has_api fetch video_id w) ''source'' = Some (PStr (lit ''youtube_auto''))) \<and>
   (field (script_fetch_transcript fetch video_id w) ''success'' = Some (PBool True) \<longrightarrow>
      field (script_fetch_transcript fetch video_id w) ''language'' = Some (PStr (lit ''en'')) \<and>
      field (script_fetch_transcript fetch video_id w) ''source'' = Some (PStr (lit ''youtube_auto''))) \<and>
   (get_transcript fetch request w = (Inr resp, w1) \<and>
    lookup (json resp) (lit ''success'') = Some (PBool True) \<longrightarrow>
      lookup (json resp) (lit ''language'') = Some (PStr (lit ''en'')) \<and>
      lookup (json resp) (lit ''source'') = Some (PStr (lit ''youtube_auto''))) \<and>
   (fetch video_id w = (Inr transcript, w') \<longrightarrow>
      field (fetch_transcript True fetch video_id w) ''success'' = Some (PBool True))"
proof -
  have api: "field (fetch_transcript h fetch video_id w) ''success'' = Some (PBool True) \<longrightarrow>
      field (fetch_transcript h fetch video_id w) ''language'' = Some (PStr (lit ''en'')) \<and>
      field (fetch_transcript h fetch video_id w) ''source'' = Some (PStr (lit ''youtube_auto''))"
    for h
  proof (cases rule: fetch_transcript_cases
      [where has_api = h and fetch = fetch and video_id = video_id and w = w])
    case unavailable
    then show ?thesis by (simp add: fetch_transcript_unavailable field_def)
  next
    case (returns transcript w')
    then show ?thesis by (simp add: fetch_transcript_returns field_def)
  next
    case (raises e w')
    then show ?thesis by (simp add: fetch_transcript_raises field_def)
  qed
  have ok: "fetch video_id w = (Inr transcript, w') \<longrightarrow>
      field (fetch_transcript True fetch video_id w) ''success'' = Some (PBool True)"
    by (simp add: fetch_transcript_returns field_def)
  show ?thesis
    using api [of has_api] api [of True] ok get_transcript_success_fields [of fetch request w resp w1]
    by (simp add: script_fetch_transcript_eq)
qed

theorem success_has_fixed_language_and_source_witness:
  "field (fetch_transcript True (stub_returning hello_world) (PStr (lit ''abc123'')) ()) ''success''
     = Some (PBool True) \<and>
   field (fetch_transcript True (stub_returning hello_world) (PStr (lit ''abc123'')) ()) ''language''
     = Some (PStr (lit ''en'')) \<and>
   field (fetch_transcript True (stub_returning hello_world) (PStr (lit ''abc123'')) ()) ''source''
     = Some (PStr (lit ''youtube_auto''))"
proof -
  have h: "stub_returning hello_world (PStr (lit ''abc123'')) () = (Inr hello_world, ())"
    by (simp add: stub_returning_def)
  show ?thesis
    using success_has_fixed_language_and_source
            [where has_api = True and fetch = "stub_returning hello_world"
               and video_id = "PStr (lit ''abc123'')" and w = "()" and transcript = hello_world
               and w' = "()"] h
    by simp
qed

text \<open>
  C5. For a capability whose outcome on the identifier does not depend on the state of
  the world, a second invocation of \<^verbatim>\<open>fetch_transcript\<close>, in the world the first one left,
  yields the same result as the first, and so the same serialized bytes under any
  serializer.
\<close>

theorem normalization_is_deterministic:
  fixes fetch :: "'w capability" and has_api :: bool and w :: 'w
  assumes "\<forall>w1 w2. fst (fetch video_id w1) = fst (fetch video_id w2)"
  defines "first \<equiv> fetch_transcript has_api fetch video_id w"
  defines "second \<equiv> fetch_transcript has_api fetch video_id (snd first)"
  shows "fst second = fst first \<and> output_bytes dumps second = output_bytes dumps first"
proof -
  have "fst (fetch video_id (snd first)) = fst (fetch video_id w)"
    using assms(1) by blast
  then have "fst second = fst first"
    unfolding first_def second_def by (rule fetch_transcript_result_cong)
  then show ?thesis
    by (simp add: output_bytes_def)
qed

theorem normalization_is_deterministic_witness:
  "(\<forall>w1 w2. fst (counting (stub_returning hello_world) (PStr (lit ''abc123'')) w1) =
            fst (counting (stub_returning hello_world) (PStr (lit ''abc123'')) w2)) \<and>
   snd (fetch_transcript True (counting (stub_returning hello_world)) (PStr (lit ''abc123'')) (0, ()))
     = (1, ()) \<and>
   fst (fetch_transcript True (counting (stub_returning hello_world)) (PStr (lit ''abc123'')) (1, ())) =
   fst (fetch_transcript True (counting (stub_returning hello_world)) (PStr (lit ''abc123'')) (0, ()))"
proof -
  have h: "\<forall>w1 w2. fst (counting (stub_returning hello_world) (PStr (lit ''abc123'')) w1) =
            fst (counting (stub_returning hello_world) (PStr (lit ''abc123'')) w2)"
    by (simp add: counting_def stub_returning_def split: prod.splits)
  have s: "snd (fetch_transcript True (counting (stub_returning hello_world))
                  (PStr (lit ''abc123'')) (0, ())) = (1, ())"
    by (simp add: fetch_transcript_counts_one_call stub_returning_def)
  show ?thesis
    using normalization_is_deterministic
            [where fetch = "counting (stub_returning hello_world)"
               and video_id = "PStr (lit ''abc123'')" and has_api = True and w = "(0, ())", OF h]
          h s
    by simp
qed

section \<open>The adapters\<close>

text \<open>
  C6. The three adapters compute the same record. With the library loaded, the script's
  \<^verbatim>\<open>fetch_transcript\<close> is the serverless function's, on every identifier, capability and
  world; the dictionary the web service hands to \<^verbatim>\<open>jsonify\<close> for a request carrying a
  non-empty identifier is that result, and so are the body sent by \<^verbatim>\<open>do_GET\<close> and
  \<^verbatim>\<open>do_POST\<close> and the line the script prints; where one of them lets an exception pass, all do.
\<close>

theorem adapters_share_normalization:
  "script_fetch_transcript fetch video_id w = fetch_transcript True fetch video_id w \<and>
   (request_video_id frequest = Inr video_id \<and> truthy video_id \<longrightarrow>
      map_prod (map_sum id json) id (get_transcript fetch frequest w) =
        fetch_transcript True fetch video_id w) \<and>
   (query_video_id request = Inr video_id \<and> truthy video_id \<longrightarrow>
      map_prod (map_sum id resp_body) id (do_GET True fetch request w) =
        fetch_transcript True fetch video_id w) \<and>
   (body_video_id lib request = Inr video_id \<and> truthy video_id \<longrightarrow>
      map_prod (map_sum id resp_body) id (do_POST lib True fetch request w) =
        fetch_transcript True fetch video_id w) \<and>
   (2 \<le> length argv \<and> video_id = PStr (argv ! 1) \<longrightarrow>
      map_prod (map_sum id stdout) id (script_main fetch argv w) =
        map_prod (map_sum id (\<lambda>result. [result])) id (fetch_transcript True fetch video_id w))"
proof -
  obtain r w' where f: "fetch_transcript True fetch video_id w = (r, w')"
    by (cases "fetch_transcript True fetch video_id w")
  have service: "request_video_id frequest = Inr video_id \<and> truthy video_id \<longrightarrow>
      map_prod (map_sum id json) id (get_transcript fetch frequest w) =
        fetch_transcript True fetch video_id w"
    by (cases r) (simp_all add: f get_transcript_normalizes)
  have get: "query_video_id request = Inr video_id \<and> truthy video_id \<longrightarrow>
      map_prod (map_sum id resp_body) id (do_GET True fetch request w) =
        fetch_transcript True fetch video_id w"
    by (cases r) (simp_all add: f do_GET_eq result_reply_def)
  have post: "body_video_id lib request = Inr video_id \<and> truthy video_id \<longrightarrow>
      map_prod (map_sum id resp_body) id (do_POST lib True fetch request w) =
        fetch_transcript True fetch video_id w"
    by (cases r) (simp_all add: f do_POST_eq result_reply_def)
  have script: "2 \<le> length argv \<and> video_id = PStr (argv ! 1) \<longrightarrow>
      map_prod (map_sum id stdout) id (script_main fetch argv w) =
        map_prod (map_sum id (\<lambda>result. [result])) id (fetch_transcript True fetch video_id w)"
  proof (intro impI, elim conjE)
    assume len: "2 \<le> length argv" and v: "video_id = PStr (argv ! 1)"
    have "script_main fetch argv w =
        (case fetch_transcript True fetch video_id w of
           (Inl e, w') \<Rightarrow> (Inl e, w')
         | (Inr result, w') \<Rightarrow> (Inr \<lparr>stdout = [result], exit_code = 0\<rparr>, w'))"
      unfolding v using len by (rule script_main_eq)
    then show "map_prod (map_sum id stdout) id (script_main fetch argv w) =
        map_prod (map_sum id (\<lambda>result. [result])) id (fetch_transcript True fetch video_id w)"
      by (cases r) (simp_all add: f)
  qed
  show ?thesis
    using service get post script by (simp add: script_fetch_transcript_eq)
qed

theorem adapters_share_normalization_witness:
  "request_video_id get_abc123 = Inr (PStr (lit ''abc123'')) \<and> truthy (PStr (lit ''abc123'')) \<and>
   script_fetch_transcript (stub_returning hello_world) (PStr (lit ''abc123'')) () =
     fetch_transcript True (stub_returning hello_world) (PStr (lit ''abc123'')) () \<and>
   map_prod (map_sum id json) id (get_transcript (stub_returning hello_world) get_abc123 ()) =
     fetch_transcript True (stub_returning hello_world) (PStr (lit ''abc123'')) () \<and>
   field (fetch_transcript True (stub_returning hello_world) (PStr (lit ''abc123'')) ()) ''fullText''
     = Some (PStr (lit ''Hello world''))"
proof -
  have h: "request_video_id get_abc123 = Inr (PStr (lit ''abc123'')) \<and> truthy (PStr (lit ''abc123''))"
    by (simp add: request_video_id_def get_abc123_def) (simp add: lit_def)
  have s: "stub_returning hello_world (PStr (lit ''abc123'')) () = (Inr hello_world, ())"
    by (simp add: stub_returning_def)
  have hw: "py_join (lit '' '') (map entry_text hello_world) = lit ''Hello world''"
    by (simp add: hello_world_def lit_def)
  show ?thesis
    using adapters_share_normalization
            [where fetch = "stub_returning hello_world" and video_id = "PStr (lit ''abc123'')"
               and w = "()" and frequest = get_abc123] h
    by (simp add: fetch_transcript_returns
          [where fetch = "stub_returning hello_world" and w = "()" and w' = "()", OF s]
          field_def hw)
qed

text \<open>
  C7. A GET request to \<^verbatim>\<open>/transcript\<close> of the web service whose \<^verbatim>\<open>videoId\<close> parameter is
  absent or empty is answered with status 400 and the dictionary with \<^verbatim>\<open>success\<close> false and
  \<^verbatim>\<open>error\<close> "videoId parameter required"; the capability is not invoked: the world is
  left as it was, and a capability that counts its invocations keeps its count.
\<close>

theorem service_get_without_video_id:
  assumes "http_method request = lit ''GET''"
    and "map_of (args request) (lit ''videoId'') = None \<or>
         map_of (args request) (lit ''videoId'') = Some []"
  shows "get_transcript fetch request w =
           (Inr \<lparr>json = PDict [(lit ''success'', PBool False),
                               (lit ''error'', PStr (lit ''videoId parameter required''))],
                 status_code = 400\<rparr>, w) \<and>
         snd (get_transcript (counting fetch) request (n, w)) = (n, w)"
proof -
  have "\<exists>v. request_video_id request = Inr v \<and> \<not> truthy v"
    using assms by (auto simp add: request_video_id_def)
  then show ?thesis
    by (auto simp add: get_transcript_missing)
qed

theorem service_get_without_video_id_witness:
  "http_method get_no_video_id = lit ''GET'' \<and>
   map_of (args get_no_video_id) (lit ''videoId'') = None \<and>
   get_transcript (counting (stub_returning hello_world)) get_no_video_id (0, ()) =
     (Inr \<lparr>json = PDict [(lit ''success'', PBool False),
                         (lit ''error'', PStr (lit ''videoId parameter required''))],
           status_code = 400\<rparr>, (0, ()))"
proof -
  have h1: "http_method get_no_video_id = lit ''GET''"
    by (simp add: get_no_video_id_def)
  have h2: "map_of (args get_no_video_id) (lit ''videoId'') = None"
    by (simp add: get_no_video_id_def)
  show ?thesis
    using service_get_without_video_id
            [where request = get_no_video_id and fetch = "counting (stub_returning hello_world)"
               and w = "(0, ())" and n = 0] h1 h2
    by simp
qed



text \<open>
  C9. \<^verbatim>\<open>do_POST\<close> decodes the body before the \<^verbatim>\<open>try\<close> that guards \<^verbatim>\<open>json.loads\<close>. When the
  bytes it read do not decode, the exception of \<^verbatim>\<open>decode\<close> leaves the handler: no response
  is sent, for any capability and any state of the library flag. (A body that decodes and is
  empty or not JSON is answered with 400, lemma \<open>do_POST_unparsable_body\<close>.)
\<close>

theorem do_POST_undecodable_body_raises:
  assumes "(case req_content_length request of None \<Rightarrow> Inr 0 | Some s \<Rightarrow> py_int lib s) = Inr n"
    and "decode lib (rfile_read (req_rfile request) n) = Inl e"
  shows "do_POST lib has_api fetch request w = (Inl e, w)"
proof -
  have "body_video_id lib request = Inl e"
    using assms by (simp add: body_video_id_def)
  then show ?thesis
    by (simp add: do_POST_def)
qed

theorem do_POST_undecodable_body_raises_witness:
  "(case req_content_length post_0xff of None \<Rightarrow> Inr 0 | Some s \<Rightarrow> py_int stub_lib s) = Inr 1 \<and>
   decode stub_lib (rfile_read (req_rfile post_0xff) 1) = Inl UnicodeDecodeError_0xff \<and>
   do_POST stub_lib True (stub_returning hello_world) post_0xff () =
     (Inl UnicodeDecodeError_0xff, ())"
proof -
  have h1: "(case req_content_length post_0xff of None \<Rightarrow> Inr 0 | Some s \<Rightarrow> py_int stub_lib s)
              = Inr 1"
    by (simp add: post_0xff_def stub_lib_def lit_def)
  have h2: "decode stub_lib (rfile_read (req_rfile post_0xff) 1) = Inl UnicodeDecodeError_0xff"
    by (simp add: post_0xff_def stub_lib_def rfile_read_def)
  show ?thesis
    using do_POST_undecodable_body_raises
            [where request = post_0xff and lib = stub_lib and n = 1
               and e = UnicodeDecodeError_0xff and has_api = True
               and fetch = "stub_returning hello_world" and w = "()"] h1 h2
    by simp
qed



end
